theory Spec2Isabelle
  imports Complex_Main "HOL-Library.AList" "HOL-Library.Multiset"
begin

section \<open>Stacking contexts and stacking layers of dom-to-svg (src/stacking.ts)\<close>

text \<open>
  The module decides whether a DOM node establishes a CSS stacking context, creates the
  seven stacking layers of a context as SVG groups, classifies an element into one of the
  layers and sorts the two z-index bearing layers. A thrown \<^verbatim>\<open>Error\<close> is a value
  \<open>Inl (Error message)\<close>; a function that returns normally yields \<open>Inr\<close>.
\<close>

datatype error = Error string

subsection \<open>Built-in string functions\<close>

text \<open>
  Strings are lists of characters. Of the white space characters of ECMAScript only the
  ASCII ones (tab, line feed, vertical tab, form feed, carriage return, space) are modelled.
\<close>

definition isWhiteSpace :: "char \<Rightarrow> bool" where
  "isWhiteSpace ch = (ch \<in> set [CHR 0x09, CHR 0x0A, CHR 0x0B, CHR 0x0C, CHR 0x0D, CHR 0x20])"

definition trimStart :: "string \<Rightarrow> string" where
  "trimStart s = dropWhile isWhiteSpace s"

text \<open>\<^verbatim>\<open>String.prototype.trim\<close>\<close>

definition trim :: "string \<Rightarrow> string" where
  "trim s = rev (trimStart (rev (trimStart s)))"

text \<open>
  \<^verbatim>\<open>String.prototype.split\<close> with a one-character separator: the pieces between the
  separators, the empty string giving one empty piece.
\<close>

fun splitOn :: "char \<Rightarrow> string \<Rightarrow> string list" where
  "splitOn sep [] = [[]]"
| "splitOn sep (ch # cs) =
     (if ch = sep then [] # splitOn sep cs
      else (case splitOn sep cs of
              [] \<Rightarrow> [[ch]]
            | piece # pieces \<Rightarrow> (ch # piece) # pieces))"

definition isDigit :: "char \<Rightarrow> bool" where
  "isDigit ch = (48 \<le> (of_char ch :: nat) \<and> (of_char ch :: nat) \<le> 57)"

definition digitValue :: "char \<Rightarrow> nat" where
  "digitValue ch = of_char ch - 48"

definition digitsValue :: "string \<Rightarrow> nat" where
  "digitsValue ds = foldl (\<lambda>acc ch. 10 * acc + digitValue ch) 0 ds"

text \<open>An optional sign in front of a numeric literal: whether it is a minus, and the rest.\<close>

definition takeSign :: "string \<Rightarrow> bool \<times> string" where
  "takeSign s =
     (case s of
        [] \<Rightarrow> (False, s)
      | ch # cs \<Rightarrow>
          if ch = CHR ''-'' then (True, cs)
          else if ch = CHR ''+'' then (False, cs)
          else (False, s))"

text \<open>
  \<^verbatim>\<open>parseInt(s, 10)\<close>: leading white space is skipped, a sign is read, and the longest
  run of decimal digits is the value; \<open>None\<close> is \<^verbatim>\<open>NaN\<close> (no digit at all). The value
  is an unbounded integer, where the source has a double: the two agree for the integers of
  magnitude up to \<open>2 ^ 53\<close>, which a double holds exactly. Beyond, the source rounds and
  the model does not, so a property that depends on the value of a z-index is stated for
  that range (\<open>safeZIndex\<close> below).
\<close>

definition parseInt :: "string \<Rightarrow> int option" where
  "parseInt s =
     (let (negative, rest) = takeSign (trimStart s);
          ds = takeWhile isDigit rest
      in if ds = [] then None
         else Some (if negative then - int (digitsValue ds) else int (digitsValue ds)))"

text \<open>The exponent part of a decimal literal; 0 when there is none.\<close>

definition exponentPart :: "string \<Rightarrow> int" where
  "exponentPart s =
     (case s of
        [] \<Rightarrow> 0
      | ch # cs \<Rightarrow>
          if ch = CHR ''e'' \<or> ch = CHR ''E'' then
            (let (negative, rest) = takeSign cs;
                 ds = takeWhile isDigit rest
             in if ds = [] then 0
                else if negative then - int (digitsValue ds) else int (digitsValue ds))
          else 0)"

text \<open>
  \<^verbatim>\<open>parseFloat(s)\<close>: leading white space is skipped and the longest prefix that is a
  decimal literal (sign, digits, fraction, exponent) is the value. The value is the exact
  rational number of the literal: the rounding to a double is not modelled, so a literal
  that is not 1 but rounds to 1 differs from 1 here and is 1 in the source. \<open>None\<close>
  stands for \<^verbatim>\<open>NaN\<close> and for the literal \<^verbatim>\<open>Infinity\<close>, which all differ from 1.
  The properties below read the opacity \<^verbatim>\<open>1\<close> only, on which the two agree.
\<close>

definition parseFloat :: "string \<Rightarrow> rat option" where
  "parseFloat s =
     (let (negative, rest) = takeSign (trimStart s);
          intDigits = takeWhile isDigit rest;
          afterInt = dropWhile isDigit rest;
          (fracDigits, afterFrac) =
            (case afterInt of
               [] \<Rightarrow> ([], afterInt)
             | ch # cs \<Rightarrow>
                 if ch = CHR ''.'' then (takeWhile isDigit cs, dropWhile isDigit cs)
                 else ([], afterInt));
          e = exponentPart afterFrac;
          mantissa = (of_nat (digitsValue (intDigits @ fracDigits)) :: rat) / 10 ^ length fracDigits;
          magnitude = (if e < 0 then mantissa / 10 ^ nat (- e) else mantissa * 10 ^ nat e)
      in if intDigits = [] \<and> fracDigits = [] then None
         else Some (if negative then - magnitude else magnitude))"

subsection \<open>The DOM as the module reads it\<close>

text \<open>
  The computed style of an element: the properties that the module reads, each a string as
  \<^verbatim>\<open>CSSStyleDeclaration\<close> gives it.
\<close>

record CSSStyleDeclaration =
  position :: string
  zIndex :: string
  display :: string
  displayOutside :: string
  displayInside :: string
  float :: string
  opacity :: string
  mixBlendMode :: string
  transform :: string
  filter_css :: string
  perspective :: string
  clipPath :: string
  mask :: string
  maskImage :: string
  maskBorder :: string
  isolation :: string
  webkitOverflowScrolling :: string
  contain :: string
  willChange :: string

text \<open>
  A window resolves the computed style of an element, named by its identity. A document
  may have no window (\<^verbatim>\<open>defaultView\<close> is null), and a node may have no owner document.
\<close>

record Window =
  getComputedStyle :: "nat \<Rightarrow> CSSStyleDeclaration"

record Document =
  defaultView :: "Window option"

record Node =
  nodeId :: nat
  nodeType :: nat
  ownerDocument :: "Document option"
  parentElement :: "nat option"

text \<open>
  The functions that the module imports from \<^verbatim>\<open>./common\<close>. That module is not among the
  sources, so the functions of this module take its predicates as a parameter.
\<close>

record Common =
  isElement :: "Node \<Rightarrow> bool"
  isInFlow :: "Node \<Rightarrow> CSSStyleDeclaration \<Rightarrow> bool"
  isInline :: "CSSStyleDeclaration \<Rightarrow> bool"
  isPositioned :: "CSSStyleDeclaration \<Rightarrow> bool"

text \<open>
  Modelled from the spec: \<^verbatim>\<open>isElement\<close> of \<^verbatim>\<open>./common\<close>, which is not among the
  sources. The spec: a node has a kind (element, text, other non-element) and only elements
  take part in stacking. Node type 1 is \<^verbatim>\<open>ELEMENT_NODE\<close>.
\<close>

definition spec_isElement :: "Node \<Rightarrow> bool" where
  "spec_isElement node = (nodeType node = 1)"

text \<open>
  Modelled from the spec: \<^verbatim>\<open>isPositioned\<close> of \<^verbatim>\<open>./common\<close>, which is not among the
  sources. The spec: true if position is relative, absolute, fixed, or sticky.
\<close>

definition spec_isPositioned :: "CSSStyleDeclaration \<Rightarrow> bool" where
  "spec_isPositioned styles =
     (position styles = ''relative'' \<or> position styles = ''absolute'' \<or>
      position styles = ''fixed'' \<or> position styles = ''sticky'')"

text \<open>
  Modelled from the spec: \<^verbatim>\<open>isInline\<close> of \<^verbatim>\<open>./common\<close>, which is not among the
  sources. The spec: true if display-outside resolves to inline-level (including
  inline-table, inline-block).
\<close>

definition spec_isInline :: "CSSStyleDeclaration \<Rightarrow> bool" where
  "spec_isInline styles =
     (displayOutside styles = ''inline'' \<or> take 6 (display styles) = ''inline'')"

text \<open>
  Modelled from the spec: \<^verbatim>\<open>isInFlow\<close> of \<^verbatim>\<open>./common\<close>, which is not among the
  sources. The spec: true if the element participates in normal flow (not floated, not
  absolutely/fixed positioned, not the root). The root element is the one without a parent
  element.
\<close>

definition spec_isInFlow :: "Node \<Rightarrow> CSSStyleDeclaration \<Rightarrow> bool" where
  "spec_isInFlow node styles =
     (float styles = ''none'' \<and> position styles \<noteq> ''absolute'' \<and>
      position styles \<noteq> ''fixed'' \<and> parentElement node \<noteq> None)"

text \<open>
  Modelled from the spec: the four predicates of \<^verbatim>\<open>./common\<close> together, as the
  spec describes them. The properties below that hold for every \<open>Common\<close> hold for them.
\<close>

definition spec_common :: Common where
  "spec_common =
     \<lparr> isElement = spec_isElement, isInFlow = spec_isInFlow,
       isInline = spec_isInline, isPositioned = spec_isPositioned \<rparr>"

subsection \<open>establishesStackingContext\<close>

definition stackingContextEstablishingProperties :: "string list" where
  "stackingContextEstablishingProperties =
     [''clipPath'', ''contain'', ''filter'', ''isolation'', ''mask'', ''maskBorder'',
      ''maskImage'', ''mixBlendMode'', ''opacity'', ''perspective'', ''position'',
      ''transform'', ''webkitOverflowScrolling'', ''zIndex'']"

text \<open>
  The disjunction that \<^verbatim>\<open>establishesStackingContext\<close> returns for an element, from its
  computed style and the computed style of its parent element, if it has one.
\<close>

definition stackingContextStyles :: "CSSStyleDeclaration \<Rightarrow> CSSStyleDeclaration option \<Rightarrow> bool" where
  "stackingContextStyles styles parentStyles =
     (((position styles = ''absolute'' \<or> position styles = ''relative'') \<and> zIndex styles \<noteq> ''auto'') \<or>
      position styles = ''fixed'' \<or>
      position styles = ''sticky'' \<or>
      (case parentStyles of
         None \<Rightarrow> False
       | Some ps \<Rightarrow> (display ps = ''flex'' \<or> display ps = ''grid'') \<and> zIndex styles \<noteq> ''auto'') \<or>
      parseFloat (opacity styles) \<noteq> Some 1 \<or>
      mixBlendMode styles \<noteq> ''normal'' \<or>
      transform styles \<noteq> ''none'' \<or>
      filter_css styles \<noteq> ''none'' \<or>
      perspective styles \<noteq> ''none'' \<or>
      clipPath styles \<noteq> ''none'' \<or>
      mask styles \<noteq> ''none'' \<or>
      maskImage styles \<noteq> ''none'' \<or>
      maskBorder styles \<noteq> ''none'' \<or>
      isolation styles = ''isolate'' \<or>
      webkitOverflowScrolling styles = ''touch'' \<or>
      contain styles = ''layout'' \<or>
      contain styles = ''paint'' \<or>
      contain styles = ''strict'' \<or>
      contain styles = ''content'' \<or>
      (willChange styles \<noteq> [] \<and>
       list_ex (\<lambda>property. trim property \<in> set stackingContextEstablishingProperties)
         (splitOn CHR '','' (willChange styles))))"

definition establishesStackingContext :: "Common \<Rightarrow> Node \<Rightarrow> error + bool" where
  "establishesStackingContext common node =
     (case Option.bind (ownerDocument node) defaultView of
        None \<Rightarrow> Inl (Error ''Node's ownerDocument has no defaultView'')
      | Some view \<Rightarrow>
          if \<not> isElement common node then Inr False
          else
            (let styles = getComputedStyle view (nodeId node);
                 parentStyles = map_option (getComputedStyle view) (parentElement node)
             in Inr (stackingContextStyles styles parentStyles)))"

subsection \<open>determineStackingLayer\<close>

text \<open>
  The local \<^verbatim>\<open>zIndex\<close>: \<open>None\<close> is \<^verbatim>\<open>undefined\<close> (the style says auto),
  \<open>Some None\<close> is \<^verbatim>\<open>NaN\<close>, \<open>Some (Some n)\<close> is the number \<open>n\<close>. Every comparison
  with \<^verbatim>\<open>NaN\<close> is false.
\<close>

definition zIndexOf :: "CSSStyleDeclaration \<Rightarrow> int option option" where
  "zIndexOf styles = (if zIndex styles \<noteq> ''auto'' then Some (parseInt (zIndex styles)) else None)"

definition isNegative :: "int option option \<Rightarrow> bool" where
  "isNegative z = (case z of Some (Some n) \<Rightarrow> n < 0 | _ \<Rightarrow> False)"

definition isPositive :: "int option option \<Rightarrow> bool" where
  "isPositive z = (case z of Some (Some n) \<Rightarrow> 0 < n | _ \<Rightarrow> False)"

text \<open>
  An element has an owner document by its type; for a node without one, reading
  \<^verbatim>\<open>defaultView\<close> of null is a \<^verbatim>\<open>TypeError\<close>. The operands of \<^verbatim>\<open>&&\<close> and
  \<^verbatim>\<open>||\<close> are evaluated from the left and only as far as needed, so
  \<^verbatim>\<open>establishesStackingContext\<close> is called only where the operands before it let it.
\<close>

definition determineStackingLayer :: "Common \<Rightarrow> Node \<Rightarrow> error + string" where
  "determineStackingLayer common element =
     (case ownerDocument element of
        None \<Rightarrow> Inl (Error ''TypeError: ownerDocument is null'')
      | Some document \<Rightarrow>
     (case defaultView document of
        None \<Rightarrow> Inl (Error ''Element's ownerDocument has no defaultView'')
      | Some view \<Rightarrow>
     (let styles = getComputedStyle view (nodeId element);
          z = zIndexOf styles
      in
     (case (if isNegative z then establishesStackingContext common element else Inr False) of
        Inl e \<Rightarrow> Inl e
      | Inr True \<Rightarrow> Inr ''childStackingContextsWithNegativeStackLevels''
      | Inr False \<Rightarrow>
     if isInFlow common element styles \<and> \<not> isInline common styles \<and> \<not> isPositioned common styles
     then Inr ''inFlowNonInlineNonPositionedDescendants''
     else if \<not> isPositioned common styles \<and> float styles \<noteq> ''none''
     then Inr ''nonPositionedFloats''
     else if isInFlow common element styles \<and> isInline common styles \<and> \<not> isPositioned common styles
     then Inr ''inFlowInlineLevelNonPositionedDescendants''
     else
     (case (if z = Some (Some 0)
            then (if isPositioned common styles then Inr True
                  else establishesStackingContext common element)
            else Inr False) of
        Inl e \<Rightarrow> Inl e
      | Inr True \<Rightarrow>
          Inr ''childStackingContextsWithStackLevelZeroAndPositionedDescendantsWithStackLevelZero''
      | Inr False \<Rightarrow>
     (case (if isPositive z then establishesStackingContext common element else Inr False) of
        Inl e \<Rightarrow> Inl e
      | Inr True \<Rightarrow> Inr ''childStackingContextsWithPositiveStackLevels''
      | Inr False \<Rightarrow> Inl (Error ''Did not find appropiate stacking layer'')))))))"

subsection \<open>The SVG output tree\<close>

text \<open>
  An SVG element of the output: its identity, its tag name, its \<^verbatim>\<open>dataset\<close> (the
  \<^verbatim>\<open>data-*\<close> attributes, by their camel-case key) and its child elements in order.
  The namespace of the element is not modelled.
\<close>

datatype SVGElement =
  SVGElement (ident: nat) (tagName: string) (dataset: "(string \<times> string) list")
    (children: "SVGElement list")

text \<open>The assignment \<^verbatim>\<open>element.dataset[key] = v\<close>.\<close>

definition setDataset :: "string \<Rightarrow> string \<Rightarrow> SVGElement \<Rightarrow> SVGElement" where
  "setDataset key v element =
     SVGElement (ident element) (tagName element) (AList.update key v (dataset element))
       (children element)"

text \<open>
  \<^verbatim>\<open>parent.append(child)\<close>: the child becomes the last child of the parent. A node that
  is a child of the parent already is moved, not copied.
\<close>

definition appendNode :: "SVGElement \<Rightarrow> SVGElement \<Rightarrow> SVGElement" where
  "appendNode parent child =
     SVGElement (ident parent) (tagName parent) (dataset parent)
       ([c \<leftarrow> children parent. ident c \<noteq> ident child] @ [child])"

text \<open>
  \<^verbatim>\<open>document.createElementNS(svgNamespace, name)\<close>: a new element without attributes
  and children. The document is the next unused identity, passed on increased.
\<close>

definition createElementNS :: "nat \<Rightarrow> string \<Rightarrow> SVGElement \<times> nat" where
  "createElementNS fresh name = (SVGElement fresh name [] [], Suc fresh)"

subsection \<open>createStackingLayers\<close>

record StackingLayers =
  rootBackgroundAndBorders :: SVGElement
  childStackingContextsWithNegativeStackLevels :: SVGElement
  inFlowNonInlineNonPositionedDescendants :: SVGElement
  nonPositionedFloats :: SVGElement
  inFlowInlineLevelNonPositionedDescendants :: SVGElement
  childStackingContextsWithStackLevelZeroAndPositionedDescendantsWithStackLevelZero :: SVGElement
  childStackingContextsWithPositiveStackLevels :: SVGElement

text \<open>The new layer, the parent with the layer appended, and the document.\<close>

definition createStackingLayer ::
  "nat \<Rightarrow> SVGElement \<Rightarrow> string \<Rightarrow> SVGElement \<times> SVGElement \<times> nat" where
  "createStackingLayer fresh parent layerName =
     (let (created, fresh') = createElementNS fresh ''g'';
          layer = setDataset ''stackingLayer'' layerName created
      in (layer, appendNode parent layer, fresh'))"

text \<open>
  The properties of the object literal are evaluated in the order in which they are
  written, so the layers are appended to the container in that order. The record holds the
  layers as they are at their creation.
\<close>

definition createStackingLayers :: "nat \<Rightarrow> SVGElement \<Rightarrow> StackingLayers \<times> SVGElement \<times> nat" where
  "createStackingLayers fresh container =
     (let c0 = setDataset ''stackingContext'' ''true'' container;
          (l1, c1, f1) = createStackingLayer fresh c0 ''rootBackgroundAndBorders'';
          (l2, c2, f2) = createStackingLayer f1 c1 ''childStackingContextsWithNegativeStackLevels'';
          (l3, c3, f3) = createStackingLayer f2 c2 ''inFlowNonInlineNonPositionedDescendants'';
          (l4, c4, f4) = createStackingLayer f3 c3 ''nonPositionedFloats'';
          (l5, c5, f5) = createStackingLayer f4 c4 ''inFlowInlineLevelNonPositionedDescendants'';
          (l6, c6, f6) = createStackingLayer f5 c5
            ''childStackingContextsWithStackLevelZeroAndPositionedDescendantsWithStackLevelZero'';
          (l7, c7, f7) = createStackingLayer f6 c6 ''childStackingContextsWithPositiveStackLevels''
      in (\<lparr> rootBackgroundAndBorders = l1,
            childStackingContextsWithNegativeStackLevels = l2,
            inFlowNonInlineNonPositionedDescendants = l3,
            nonPositionedFloats = l4,
            inFlowInlineLevelNonPositionedDescendants = l5,
            childStackingContextsWithStackLevelZeroAndPositionedDescendantsWithStackLevelZero = l6,
            childStackingContextsWithPositiveStackLevels = l7 \<rparr>, c7, f7))"

subsection \<open>sortChildrenByZIndex\<close>

text \<open>
  The comparison function of the sort. An attribute that is absent or empty is falsy and
  makes the function throw. The difference of two numbers is \<^verbatim>\<open>NaN\<close> (\<open>None\<close>) when
  one of them is.
\<close>

definition compareZIndex :: "SVGElement \<Rightarrow> SVGElement \<Rightarrow> error + int option" where
  "compareZIndex a b =
     (let zIndexA = map_of (dataset a) ''zIndex'';
          zIndexB = map_of (dataset b) ''zIndex''
      in case (zIndexA, zIndexB) of
           (Some sa, Some sb) \<Rightarrow>
             if sa = [] \<or> sb = [] then Inl (Error ''Expected node to have data-z-index attribute'')
             else (case (parseInt sa, parseInt sb) of
                     (Some na, Some nb) \<Rightarrow> Inr (Some (na - nb))
                   | _ \<Rightarrow> Inr None)
         | _ \<Rightarrow> Inl (Error ''Expected node to have data-z-index attribute''))"

text \<open>
  \<^verbatim>\<open>Array.prototype.sort\<close> with a comparison function. ECMAScript fixes that the sort is
  stable, that a \<^verbatim>\<open>NaN\<close> from the comparison function counts as 0 and that an exception
  of the comparison function ends the sort; the sequence of comparisons is left to the
  engine. Here the elements are inserted one after the other, from the left, each in front
  of the first element that it is smaller than.
\<close>

definition belowZero :: "int option \<Rightarrow> bool" where
  "belowZero v = (case v of None \<Rightarrow> False | Some d \<Rightarrow> d < 0)"

fun insertInOrder :: "('a \<Rightarrow> 'a \<Rightarrow> error + int option) \<Rightarrow> 'a \<Rightarrow> 'a list \<Rightarrow> error + 'a list" where
  "insertInOrder compareFn x [] = Inr [x]"
| "insertInOrder compareFn x (y # ys) =
     (case compareFn x y of
        Inl e \<Rightarrow> Inl e
      | Inr v \<Rightarrow>
          if belowZero v then Inr (x # y # ys)
          else (case insertInOrder compareFn x ys of
                  Inl e \<Rightarrow> Inl e
                | Inr zs \<Rightarrow> Inr (y # zs)))"

fun insertAll :: "('a \<Rightarrow> 'a \<Rightarrow> error + int option) \<Rightarrow> 'a list \<Rightarrow> 'a list \<Rightarrow> error + 'a list" where
  "insertAll compareFn placed [] = Inr placed"
| "insertAll compareFn placed (x # xs) =
     (case insertInOrder compareFn x placed of
        Inl e \<Rightarrow> Inl e
      | Inr placed' \<Rightarrow> insertAll compareFn placed' xs)"

definition arraySort :: "('a \<Rightarrow> 'a \<Rightarrow> error + int option) \<Rightarrow> 'a list \<Rightarrow> error + 'a list" where
  "arraySort compareFn xs = insertAll compareFn [] xs"

text \<open>
  The children are copied into an array and the array is sorted; when the sort throws, the
  parent is as before. Then every element of the sorted array is appended to the parent.
\<close>

definition sortChildrenByZIndex :: "SVGElement \<Rightarrow> error + SVGElement" where
  "sortChildrenByZIndex parent =
     (case arraySort compareZIndex (children parent) of
        Inl e \<Rightarrow> Inl e
      | Inr sortedChildren \<Rightarrow> Inr (foldl appendNode parent sortedChildren))"

definition sortStackingLayerChildren :: "StackingLayers \<Rightarrow> error + StackingLayers" where
  "sortStackingLayerChildren stackingLayers =
     (case sortChildrenByZIndex (childStackingContextsWithNegativeStackLevels stackingLayers) of
        Inl e \<Rightarrow> Inl e
      | Inr negative \<Rightarrow>
     (case sortChildrenByZIndex (childStackingContextsWithPositiveStackLevels stackingLayers) of
        Inl e \<Rightarrow> Inl e
      | Inr positive \<Rightarrow>
          Inr (stackingLayers
                \<lparr> childStackingContextsWithNegativeStackLevels := negative,
                  childStackingContextsWithPositiveStackLevels := positive \<rparr>)))"

subsection \<open>Notions of the properties\<close>

text \<open>The \<^verbatim>\<open>data-z-index\<close> attribute of an element is absent or empty.\<close>

definition missingZIndex :: "SVGElement \<Rightarrow> bool" where
  "missingZIndex element =
     (case map_of (dataset element) ''zIndex'' of None \<Rightarrow> True | Some s \<Rightarrow> s = [])"

text \<open>The number that \<^verbatim>\<open>parseInt\<close> reads from the attribute, if it reads one.\<close>

definition zIndexNumber :: "SVGElement \<Rightarrow> int option" where
  "zIndexNumber element = Option.bind (map_of (dataset element) ''zIndex'') parseInt"

definition zIndexKey :: "SVGElement \<Rightarrow> int" where
  "zIndexKey element = (case zIndexNumber element of None \<Rightarrow> 0 | Some n \<Rightarrow> n)"

text \<open>
  An integer can be read from the attribute, and a double holds it exactly: its magnitude
  is at most \<open>2 ^ 53\<close>. On such integers the numbers of the source are the integers of
  the model: \<^verbatim>\<open>parseInt\<close> returns the integer itself, two of them are the same double
  only if they are the same integer, and their difference, rounded to a double, is below
  zero exactly when the difference of the integers is. Every z-index that a browser computes
  is in this range.
\<close>

definition safeZIndex :: "SVGElement \<Rightarrow> bool" where
  "safeZIndex element =
     (case zIndexNumber element of
        None \<Rightarrow> False
      | Some n \<Rightarrow> - (2 ^ 53) \<le> n \<and> n \<le> 2 ^ 53)"

text \<open>The initial value of every style property that the module reads.\<close>

definition initialStyles :: CSSStyleDeclaration where
  "initialStyles =
     \<lparr> position = ''static'', zIndex = ''auto'', display = ''block'',
       displayOutside = ''block'', displayInside = ''flow'', float = ''none'',
       opacity = ''1'', mixBlendMode = ''normal'', transform = ''none'',
       filter_css = ''none'', perspective = ''none'', clipPath = ''none'', mask = ''none'',
       maskImage = ''none'', maskBorder = ''none'', isolation = ''auto'',
       webkitOverflowScrolling = ''auto'', contain = ''none'', willChange = ''auto'' \<rparr>"

text \<open>
  An element (identity 1) with the given computed style in a document with a window; its
  parent element (identity 0) has the initial style.
\<close>

definition windowOf :: "CSSStyleDeclaration \<Rightarrow> Window" where
  "windowOf styles = \<lparr> getComputedStyle = (\<lambda>n. if n = 1 then styles else initialStyles) \<rparr>"

definition elementWith :: "CSSStyleDeclaration \<Rightarrow> Node" where
  "elementWith styles =
     \<lparr> nodeId = 1, nodeType = 1,
       ownerDocument = Some \<lparr> defaultView = Some (windowOf styles) \<rparr>,
       parentElement = Some 0 \<rparr>"

text \<open>A group with the given identity and \<^verbatim>\<open>data-z-index\<close> attribute, without children.\<close>

definition taggedGroup :: "nat \<Rightarrow> string \<Rightarrow> SVGElement" where
  "taggedGroup n z = SVGElement n ''g'' [(''zIndex'', z)] []"

definition layerGroup :: "nat \<Rightarrow> string \<Rightarrow> SVGElement list \<Rightarrow> SVGElement" where
  "layerGroup n layerName cs = SVGElement n ''g'' [(''stackingLayer'', layerName)] cs"

text \<open>Style resolution is available for a node: its owner document has a window.\<close>

definition hasDefaultView :: "Node \<Rightarrow> bool" where
  "hasDefaultView node =
     (case ownerDocument node of
        None \<Rightarrow> False
      | Some document \<Rightarrow> defaultView document \<noteq> None)"

text \<open>A text node in a document with a window, and an element of a document without one.\<close>

definition textNode :: Node where
  "textNode =
     \<lparr> nodeId = 2, nodeType = 3,
       ownerDocument = Some \<lparr> defaultView = Some (windowOf initialStyles) \<rparr>,
       parentElement = Some 1 \<rparr>"

definition viewlessElement :: Node where
  "viewlessElement =
     \<lparr> nodeId = 1, nodeType = 1,
       ownerDocument = Some \<lparr> defaultView = None \<rparr>,
       parentElement = Some 0 \<rparr>"

text \<open>The names of the layers 2 to 7, the layers of the descendants of a context.\<close>

definition descendantLayerNames :: "string list" where
  "descendantLayerNames =
     [''childStackingContextsWithNegativeStackLevels'',
      ''inFlowNonInlineNonPositionedDescendants'',
      ''nonPositionedFloats'',
      ''inFlowInlineLevelNonPositionedDescendants'',
      ''childStackingContextsWithStackLevelZeroAndPositionedDescendantsWithStackLevelZero'',
      ''childStackingContextsWithPositiveStackLevels'']"

text \<open>The error of the comparison function of \<^verbatim>\<open>sortChildrenByZIndex\<close>.\<close>

definition missingError :: error where
  "missingError = Error ''Expected node to have data-z-index attribute''"

text \<open>
  The layers of a context whose layer 2 holds three entries with the z-indexes -3, -1 and
  -2, in this order; the other layers are empty.
\<close>

definition scenarioLayers :: StackingLayers where
  "scenarioLayers =
     \<lparr> rootBackgroundAndBorders = layerGroup 1 ''rootBackgroundAndBorders'' [],
       childStackingContextsWithNegativeStackLevels =
         layerGroup 2 ''childStackingContextsWithNegativeStackLevels''
           [taggedGroup 8 ''-3'', taggedGroup 9 ''-1'', taggedGroup 10 ''-2''],
       inFlowNonInlineNonPositionedDescendants =
         layerGroup 3 ''inFlowNonInlineNonPositionedDescendants'' [],
       nonPositionedFloats = layerGroup 4 ''nonPositionedFloats'' [],
       inFlowInlineLevelNonPositionedDescendants =
         layerGroup 5 ''inFlowInlineLevelNonPositionedDescendants'' [],
       childStackingContextsWithStackLevelZeroAndPositionedDescendantsWithStackLevelZero =
         layerGroup 6
           ''childStackingContextsWithStackLevelZeroAndPositionedDescendantsWithStackLevelZero'' [],
       childStackingContextsWithPositiveStackLevels =
         layerGroup 7 ''childStackingContextsWithPositiveStackLevels'' [] \<rparr>"

text \<open>A layer 7 with four entries, two of z-index 2 and two of z-index 1, interleaved.\<close>

definition tiedLayer :: SVGElement where
  "tiedLayer =
     layerGroup 7 ''childStackingContextsWithPositiveStackLevels''
       [taggedGroup 1 ''2'', taggedGroup 2 ''1'', taggedGroup 3 ''2'', taggedGroup 4 ''1'']"

text \<open>An \<^verbatim>\<open>svg\<close> element that has a child already.\<close>

definition svgRoot :: SVGElement where
  "svgRoot = SVGElement 0 ''svg'' [(''xmlns'', ''svg'')] [SVGElement 1 ''title'' [] []]"

section \<open>Properties of establishesStackingContext\<close>

lemma bind_defaultView:
  "(Option.bind (ownerDocument node) defaultView = None) = (\<not> hasDefaultView node)"
  by (cases "ownerDocument node") (simp_all add: hasDefaultView_def)

text \<open>
  C7: \<^verbatim>\<open>establishesStackingContext\<close> throws exactly when the node has no owner document
  with a window, and for a node that has one and is not an element it returns false.
\<close>

theorem establishesStackingContext_fails_iff_no_view:
  "((\<exists>e. establishesStackingContext common node = Inl e) \<longleftrightarrow> \<not> hasDefaultView node) \<and>
   (hasDefaultView node \<and> \<not> isElement common node \<longrightarrow>
      establishesStackingContext common node = Inr False)"
  by (cases "Option.bind (ownerDocument node) defaultView")
     (simp_all add: establishesStackingContext_def Let_def flip: bind_defaultView)

text \<open>
  The text node has a window, is no element and gives false; the element of the document
  without a window makes the function throw.
\<close>

theorem establishesStackingContext_fails_iff_no_view_witness:
  "hasDefaultView textNode \<and> \<not> isElement spec_common textNode \<and>
   establishesStackingContext spec_common textNode = Inr False \<and>
   \<not> hasDefaultView viewlessElement \<and>
   (\<exists>e. establishesStackingContext spec_common viewlessElement = Inl e)"
  using establishesStackingContext_fails_iff_no_view [of spec_common textNode]
    establishesStackingContext_fails_iff_no_view [of spec_common viewlessElement]
  by (simp add: hasDefaultView_def textNode_def viewlessElement_def spec_common_def
      spec_isElement_def)

lemma parseFloat_one: "parseFloat ''1'' = Some 1"
  by code_simp

lemma trim_auto: "trim ''auto'' = ''auto''"
  by code_simp

text \<open>
  An element whose style is the initial one but for a relative position and its display
  does not establish a stacking context, whatever its parent is.
\<close>

lemma establishesStackingContext_relative_auto:
  assumes "ownerDocument element = Some document"
      and "defaultView document = Some view"
      and "getComputedStyle view (nodeId element) =
             initialStyles\<lparr>position := ''relative'', display := d, displayOutside := dOut,
               displayInside := dIn\<rparr>"
  shows "establishesStackingContext common element = Inr False"
  using assms
  by (simp add: establishesStackingContext_def Let_def stackingContextStyles_def
      initialStyles_def parseFloat_one trim_auto stackingContextEstablishingProperties_def
      split: option.splits)

text \<open>
  The rule of \<^verbatim>\<open>will-change\<close> as the code has it: a piece of the list that, trimmed, is
  one of the fourteen strings of the set makes the element establish a context.
\<close>

lemma willChange_listed_establishes:
  assumes "ownerDocument element = Some document"
      and "defaultView document = Some view"
      and "isElement common element"
      and "property \<in> set (splitOn CHR '','' (willChange (getComputedStyle view (nodeId element))))"
      and "trim property \<in> set stackingContextEstablishingProperties"
  shows "establishesStackingContext common element = Inr True"
proof -
  let ?styles = "getComputedStyle view (nodeId element)"
  have "willChange ?styles \<noteq> []"
  proof
    assume "willChange ?styles = []"
    with assms(4) have "property = []" by simp
    with assms(5) show False
      by (simp add: trim_def trimStart_def stackingContextEstablishingProperties_def)
  qed
  moreover from assms(4,5) have
    "list_ex (\<lambda>p. trim p \<in> set stackingContextEstablishingProperties)
       (splitOn CHR '','' (willChange ?styles))"
    by (auto simp: list_ex_iff)
  ultimately have "stackingContextStyles ?styles
      (map_option (getComputedStyle view) (parentElement element))"
    by (simp add: stackingContextStyles_def)
  with assms(1,2,3) show ?thesis
    by (simp add: establishesStackingContext_def Let_def)
qed

lemma willChange_opacity_establishes:
  "establishesStackingContext spec_common
     (elementWith (initialStyles\<lparr>willChange := ''opacity''\<rparr>)) = Inr True"
  by code_simp

text \<open>
  C3: the strings of the set are the camel-case names of the style object, and a
  \<^verbatim>\<open>will-change\<close> list names a property by its CSS name. For each of the six properties
  of the set whose CSS name has a hyphen, an element that names it in \<^verbatim>\<open>will-change\<close>
  and has the initial style otherwise does not establish a stacking context.
\<close>

theorem willChange_hyphenated_not_recognised:
  "establishesStackingContext spec_common
     (elementWith (initialStyles\<lparr>willChange := ''clip-path''\<rparr>)) = Inr False \<and>
   establishesStackingContext spec_common
     (elementWith (initialStyles\<lparr>willChange := ''mask-border''\<rparr>)) = Inr False \<and>
   establishesStackingContext spec_common
     (elementWith (initialStyles\<lparr>willChange := ''mask-image''\<rparr>)) = Inr False \<and>
   establishesStackingContext spec_common
     (elementWith (initialStyles\<lparr>willChange := ''mix-blend-mode''\<rparr>)) = Inr False \<and>
   establishesStackingContext spec_common
     (elementWith (initialStyles\<lparr>willChange := ''-webkit-overflow-scrolling''\<rparr>)) = Inr False \<and>
   establishesStackingContext spec_common
     (elementWith (initialStyles\<lparr>willChange := ''z-index''\<rparr>)) = Inr False"
  by code_simp

section \<open>Properties of determineStackingLayer\<close>

lemma determineStackingLayer_layer:
  assumes "determineStackingLayer common element = Inr layer"
  shows "layer \<in> set descendantLayerNames"
  using assms unfolding determineStackingLayer_def Let_def descendantLayerNames_def
  by (auto split: option.splits sum.splits if_splits bool.splits)

text \<open>
  C9: a layer that \<^verbatim>\<open>determineStackingLayer\<close> returns is one of the layers 2 to 7,
  never \<^verbatim>\<open>rootBackgroundAndBorders\<close>.
\<close>

theorem determineStackingLayer_never_root:
  "determineStackingLayer common element = Inr layer \<Longrightarrow>
     layer \<in> set descendantLayerNames \<and> layer \<noteq> ''rootBackgroundAndBorders''"
  using determineStackingLayer_layer [of common element layer]
  by (auto simp: descendantLayerNames_def)

text \<open>An element with the initial style is classified, into layer 3.\<close>

theorem determineStackingLayer_never_root_witness:
  "determineStackingLayer spec_common (elementWith initialStyles) =
     Inr ''inFlowNonInlineNonPositionedDescendants'' \<and>
   ''inFlowNonInlineNonPositionedDescendants'' \<noteq> ''rootBackgroundAndBorders''"
proof -
  have classified: "determineStackingLayer spec_common (elementWith initialStyles) =
      Inr ''inFlowNonInlineNonPositionedDescendants''"
    by code_simp
  from determineStackingLayer_never_root [OF classified] classified show ?thesis
    by blast
qed

text \<open>
  A positioned element whose z-index is auto matches no rule: the rules 1, 5 and 6 ask for
  a number and the rules 2, 3 and 4 for an element that is not positioned.
\<close>

lemma determineStackingLayer_positioned_auto:
  assumes "ownerDocument element = Some document"
      and "defaultView document = Some view"
      and "zIndex (getComputedStyle view (nodeId element)) = ''auto''"
      and "isPositioned common (getComputedStyle view (nodeId element))"
  shows "determineStackingLayer common element =
           Inl (Error ''Did not find appropiate stacking layer'')"
  using assms
  by (simp add: determineStackingLayer_def Let_def zIndexOf_def isNegative_def isPositive_def)

text \<open>
  C1: for an absolutely positioned element with z-index auto and the initial style
  otherwise, \<^verbatim>\<open>determineStackingLayer\<close> throws; it does not return layer 6.
\<close>

theorem determineStackingLayer_absolute_auto_fails:
  "determineStackingLayer spec_common
     (elementWith (initialStyles\<lparr>position := ''absolute''\<rparr>)) =
   Inl (Error ''Did not find appropiate stacking layer'')"
  by code_simp

text \<open>
  C2, as the claim has it: for the element with a relative position, z-index auto and the
  initial style otherwise, \<^verbatim>\<open>establishesStackingContext\<close> is false, but
  \<^verbatim>\<open>determineStackingLayer\<close> throws and returns neither layer 3 nor layer 5.
\<close>

theorem determineStackingLayer_relative_auto_counterexample:
  "establishesStackingContext spec_common
     (elementWith (initialStyles\<lparr>position := ''relative''\<rparr>)) = Inr False \<and>
   determineStackingLayer spec_common
     (elementWith (initialStyles\<lparr>position := ''relative''\<rparr>)) =
   Inl (Error ''Did not find appropiate stacking layer'')"
  by code_simp

text \<open>
  C2, amended: for every element with a relative position, z-index auto and the initial
  value of every other property (the display apart), \<^verbatim>\<open>establishesStackingContext\<close>
  returns false, and \<^verbatim>\<open>determineStackingLayer\<close> returns none of the layers of the
  elements that are not positioned (3, 4 and 5), whatever \<^verbatim>\<open>isInFlow\<close> and
  \<^verbatim>\<open>isInline\<close> say of the element.
\<close>

theorem relative_auto_not_in_flow_layers:
  assumes "ownerDocument element = Some document"
      and "defaultView document = Some view"
      and "getComputedStyle view (nodeId element) =
             initialStyles\<lparr>position := ''relative'', display := d, displayOutside := dOut,
               displayInside := dIn\<rparr>"
  shows "establishesStackingContext (common\<lparr>isPositioned := spec_isPositioned\<rparr>) element =
           Inr False \<and>
         determineStackingLayer (common\<lparr>isPositioned := spec_isPositioned\<rparr>) element \<noteq>
           Inr ''inFlowNonInlineNonPositionedDescendants'' \<and>
         determineStackingLayer (common\<lparr>isPositioned := spec_isPositioned\<rparr>) element \<noteq>
           Inr ''nonPositionedFloats'' \<and>
         determineStackingLayer (common\<lparr>isPositioned := spec_isPositioned\<rparr>) element \<noteq>
           Inr ''inFlowInlineLevelNonPositionedDescendants''"
proof -
  let ?common = "common\<lparr>isPositioned := spec_isPositioned\<rparr>"
  from assms(3) have "zIndex (getComputedStyle view (nodeId element)) = ''auto''"
    and "isPositioned ?common (getComputedStyle view (nodeId element))"
    by (simp_all add: initialStyles_def spec_isPositioned_def)
  with assms(1,2) have "determineStackingLayer ?common element =
      Inl (Error ''Did not find appropiate stacking layer'')"
    by (rule determineStackingLayer_positioned_auto)
  with establishesStackingContext_relative_auto [OF assms, of ?common] show ?thesis
    by simp
qed

text \<open>The element of the counterexample, with an inline display.\<close>

theorem relative_auto_not_in_flow_layers_witness:
  "establishesStackingContext spec_common
     (elementWith (initialStyles\<lparr>position := ''relative'', display := ''inline'',
        displayOutside := ''inline'', displayInside := ''flow''\<rparr>)) = Inr False \<and>
   determineStackingLayer spec_common
     (elementWith (initialStyles\<lparr>position := ''relative'', display := ''inline'',
        displayOutside := ''inline'', displayInside := ''flow''\<rparr>)) \<noteq>
     Inr ''inFlowInlineLevelNonPositionedDescendants''"
proof -
  let ?styles = "initialStyles\<lparr>position := ''relative'', display := ''inline'',
        displayOutside := ''inline'', displayInside := ''flow''\<rparr>"
  have same: "spec_common\<lparr>isPositioned := spec_isPositioned\<rparr> = spec_common"
    by (simp add: spec_common_def)
  have "ownerDocument (elementWith ?styles) = Some \<lparr> defaultView = Some (windowOf ?styles) \<rparr>"
    and "defaultView \<lparr> defaultView = Some (windowOf ?styles) \<rparr> = Some (windowOf ?styles)"
    and "getComputedStyle (windowOf ?styles) (nodeId (elementWith ?styles)) = ?styles"
    by (simp_all add: elementWith_def windowOf_def)
  from relative_auto_not_in_flow_layers [OF this, of spec_common] same show ?thesis
    by simp
qed

section \<open>Properties of sortChildrenByZIndex\<close>

lemma compareZIndex_missing:
  "missingZIndex a \<or> missingZIndex b \<Longrightarrow> compareZIndex a b = Inl missingError"
  by (auto simp: compareZIndex_def missingZIndex_def missingError_def Let_def split: option.splits)

lemma compareZIndex_present:
  "\<not> missingZIndex a \<Longrightarrow> \<not> missingZIndex b \<Longrightarrow> \<exists>v. compareZIndex a b = Inr v"
  by (auto simp: compareZIndex_def missingZIndex_def Let_def split: option.splits)

lemma zIndexNumber_present: "zIndexNumber a = Some n \<Longrightarrow> \<not> missingZIndex a"
  by (auto simp: zIndexNumber_def missingZIndex_def parseInt_def takeSign_def trimStart_def
      split: option.splits Option.bind_splits)

lemma compareZIndex_numbers:
  "zIndexNumber a = Some na \<Longrightarrow> zIndexNumber b = Some nb \<Longrightarrow>
     compareZIndex a b = Inr (Some (na - nb))"
  using zIndexNumber_present [of a na] zIndexNumber_present [of b nb]
  by (auto simp: compareZIndex_def zIndexNumber_def missingZIndex_def Let_def
      split: option.splits Option.bind_splits)

lemma insertInOrder_present:
  assumes "\<not> missingZIndex x" and "\<forall>y \<in> set ys. \<not> missingZIndex y"
  shows "\<exists>zs. insertInOrder compareZIndex x ys = Inr zs \<and> mset zs = add_mset x (mset ys)"
  using assms
proof (induction ys)
  case Nil
  then show ?case by simp
next
  case (Cons y ys)
  from Cons.prems obtain v where v: "compareZIndex x y = Inr v"
    using compareZIndex_present [of x y] by auto
  from Cons obtain zs where zs: "insertInOrder compareZIndex x ys = Inr zs"
    "mset zs = add_mset x (mset ys)" by auto
  show ?case using v zs by simp
qed

lemma insertInOrder_missing:
  assumes "missingZIndex x \<or> missingZIndex y"
  shows "insertInOrder compareZIndex x (y # ys) = Inl missingError"
  using compareZIndex_missing [of x y] assms by simp

lemma insertAll_present:
  assumes "\<forall>y \<in> set placed. \<not> missingZIndex y" and "\<forall>x \<in> set xs. \<not> missingZIndex x"
  shows "\<exists>zs. insertAll compareZIndex placed xs = Inr zs \<and> mset zs = mset placed + mset xs"
  using assms
proof (induction xs arbitrary: placed)
  case Nil
  then show ?case by simp
next
  case (Cons x xs)
  from Cons.prems obtain placed' where p: "insertInOrder compareZIndex x placed = Inr placed'"
    "mset placed' = add_mset x (mset placed)"
    using insertInOrder_present [of x placed] by auto
  from p(2) have "set placed' = insert x (set placed)"
    by (metis set_mset_add_mset_insert set_mset_mset)
  with Cons.prems have "\<forall>y \<in> set placed'. \<not> missingZIndex y" by simp
  with Cons.IH [of placed'] Cons.prems obtain zs where
    "insertAll compareZIndex placed' xs = Inr zs" "mset zs = mset placed' + mset xs" by auto
  with p show ?case by simp
qed

lemma insertAll_missing:
  assumes "placed \<noteq> []" and "\<forall>y \<in> set placed. \<not> missingZIndex y"
      and "\<exists>x \<in> set xs. missingZIndex x"
  shows "insertAll compareZIndex placed xs = Inl missingError"
  using assms
proof (induction xs arbitrary: placed)
  case Nil
  then show ?case by simp
next
  case (Cons x xs)
  from Cons.prems(1) obtain y ys where placed: "placed = y # ys" by (cases placed) auto
  show ?case
  proof (cases "missingZIndex x")
    case True
    then show ?thesis using insertInOrder_missing [of x y ys] placed by simp
  next
    case False
    with Cons.prems obtain placed' where p: "insertInOrder compareZIndex x placed = Inr placed'"
      "mset placed' = add_mset x (mset placed)"
      using insertInOrder_present [of x placed] by auto
    from p(2) have s: "set placed' = insert x (set placed)"
      by (metis set_mset_add_mset_insert set_mset_mset)
    with Cons.prems False have "\<forall>y \<in> set placed'. \<not> missingZIndex y" "placed' \<noteq> []" by auto
    moreover from Cons.prems False have "\<exists>x \<in> set xs. missingZIndex x" by auto
    ultimately have "insertAll compareZIndex placed' xs = Inl missingError"
      using Cons.IH [of placed'] by simp
    with p show ?thesis by simp
  qed
qed

lemma arraySort_missing:
  assumes "2 \<le> length xs" and "\<exists>x \<in> set xs. missingZIndex x"
  shows "arraySort compareZIndex xs = Inl missingError"
proof -
  from assms(1) obtain a b rest where xs: "xs = a # b # rest"
    by (cases xs; cases "tl xs") auto
  show ?thesis
  proof (cases "missingZIndex a \<or> missingZIndex b")
    case True
    then have "insertInOrder compareZIndex b [a] = Inl missingError"
      using insertInOrder_missing [of b a "[]"] by auto
    then show ?thesis by (simp add: arraySort_def xs)
  next
    case False
    then obtain placed where p: "insertInOrder compareZIndex b [a] = Inr placed"
      "mset placed = add_mset b (mset [a])"
      using insertInOrder_present [of b "[a]"] by auto
    from p(2) have s: "set placed = insert b (set [a])"
      by (metis set_mset_add_mset_insert set_mset_mset)
    with False have "\<forall>y \<in> set placed. \<not> missingZIndex y" "placed \<noteq> []" by auto
    moreover from assms(2) False have "\<exists>x \<in> set rest. missingZIndex x" by (auto simp: xs)
    ultimately have "insertAll compareZIndex placed rest = Inl missingError"
      using insertAll_missing [of placed rest] by simp
    with p show ?thesis by (simp add: arraySort_def xs)
  qed
qed

lemma arraySort_present:
  assumes "\<forall>x \<in> set xs. \<not> missingZIndex x"
  shows "\<exists>zs. arraySort compareZIndex xs = Inr zs \<and> mset zs = mset xs"
  using insertAll_present [of "[]" xs] assms by (simp add: arraySort_def)

lemma children_foldl_appendNode:
  assumes "distinct (map ident xs)"
  shows "foldl appendNode parent xs =
           SVGElement (ident parent) (tagName parent) (dataset parent)
             ([c \<leftarrow> children parent. ident c \<notin> ident ` set xs] @ xs)"
  using assms
proof (induction xs rule: rev_induct)
  case Nil
  then show ?case by simp
next
  case (snoc x xs)
  from snoc.prems have "ident x \<notin> ident ` set xs" by simp
  then have keep: "[c \<leftarrow> xs. ident c \<noteq> ident x] = xs"
    unfolding filter_id_conv by (metis imageI)
  have "[c \<leftarrow> children parent. ident c \<notin> ident ` set xs \<and> ident c \<noteq> ident x] =
        [c \<leftarrow> children parent. ident c \<noteq> ident x \<and> ident c \<notin> ident ` set xs]"
    by (rule filter_cong) auto
  with snoc keep show ?case by (simp add: appendNode_def)
qed

lemma foldl_appendNode_permutation:
  assumes "distinct (map ident (children parent))" and "mset xs = mset (children parent)"
  shows "foldl appendNode parent xs =
           SVGElement (ident parent) (tagName parent) (dataset parent) xs"
proof -
  from assms(2) have "mset (map ident xs) = mset (map ident (children parent))" by simp
  with assms(1) have d: "distinct (map ident xs)"
    using mset_eq_imp_distinct_iff by blast
  from assms(2) have "set (children parent) = set xs" by (metis set_mset_mset)
  then have "[c \<leftarrow> children parent. ident c \<notin> ident ` set xs] = []" by auto
  with children_foldl_appendNode [OF d, of parent] show ?thesis by simp
qed


lemma zIndexKey_number: "zIndexNumber a = Some n \<Longrightarrow> zIndexKey a = n"
  by (simp add: zIndexKey_def)

lemma insertInOrder_stable:
  assumes "zIndexNumber x \<noteq> None" and "\<forall>y \<in> set ys. zIndexNumber y \<noteq> None"
      and "sorted (map zIndexKey ys)"
  shows "\<exists>zs. insertInOrder compareZIndex x ys = Inr zs \<and> sorted (map zIndexKey zs) \<and>
           set zs = insert x (set ys) \<and>
           (\<forall>k. [c \<leftarrow> zs. zIndexKey c = k] =
                [c \<leftarrow> ys. zIndexKey c = k] @ (if zIndexKey x = k then [x] else []))"
  using assms
proof (induction ys)
  case Nil
  then show ?case by simp
next
  case (Cons y ys)
  from Cons.prems obtain nx ny where n: "zIndexNumber x = Some nx" "zIndexNumber y = Some ny"
    by auto
  then have cmp: "compareZIndex x y = Inr (Some (nx - ny))"
    by (rule compareZIndex_numbers)
  from n have key: "zIndexKey x = nx" "zIndexKey y = ny"
    by (simp_all add: zIndexKey_number)
  show ?case
  proof (cases "nx < ny")
    case True
    with Cons.prems(3) key have above: "\<forall>c \<in> set (y # ys). zIndexKey x < zIndexKey c"
      by auto
    then have "[c \<leftarrow> y # ys. zIndexKey c = zIndexKey x] = []"
      by (auto simp: filter_empty_conv)
    with True cmp key above Cons.prems(3) show ?thesis
      by (auto simp: belowZero_def less_imp_le)
  next
    case False
    from Cons obtain zs where zs: "insertInOrder compareZIndex x ys = Inr zs"
      "sorted (map zIndexKey zs)" "set zs = insert x (set ys)"
      "\<forall>k. [c \<leftarrow> zs. zIndexKey c = k] =
           [c \<leftarrow> ys. zIndexKey c = k] @ (if zIndexKey x = k then [x] else [])"
      by auto
    from False key Cons.prems(3) zs(3) have "\<forall>c \<in> set zs. zIndexKey y \<le> zIndexKey c"
      by auto
    with False cmp zs show ?thesis
      by (auto simp: belowZero_def)
  qed
qed

lemma insertAll_stable:
  assumes "\<forall>y \<in> set placed. zIndexNumber y \<noteq> None" and "\<forall>x \<in> set xs. zIndexNumber x \<noteq> None"
      and "sorted (map zIndexKey placed)"
  shows "\<exists>zs. insertAll compareZIndex placed xs = Inr zs \<and> sorted (map zIndexKey zs) \<and>
           (\<forall>k. [c \<leftarrow> zs. zIndexKey c = k] =
                [c \<leftarrow> placed. zIndexKey c = k] @ [c \<leftarrow> xs. zIndexKey c = k])"
  using assms
proof (induction xs arbitrary: placed)
  case Nil
  then show ?case by simp
next
  case (Cons x xs)
  from Cons.prems obtain placed' where p: "insertInOrder compareZIndex x placed = Inr placed'"
    "sorted (map zIndexKey placed')" "set placed' = insert x (set placed)"
    "\<forall>k. [c \<leftarrow> placed'. zIndexKey c = k] =
         [c \<leftarrow> placed. zIndexKey c = k] @ (if zIndexKey x = k then [x] else [])"
    using insertInOrder_stable [of x placed] by auto
  from p(3) Cons.prems have "\<forall>y \<in> set placed'. zIndexNumber y \<noteq> None" by auto
  with Cons.IH [of placed'] Cons.prems p(2) obtain zs where zs:
    "insertAll compareZIndex placed' xs = Inr zs" "sorted (map zIndexKey zs)"
    "\<forall>k. [c \<leftarrow> zs. zIndexKey c = k] =
         [c \<leftarrow> placed'. zIndexKey c = k] @ [c \<leftarrow> xs. zIndexKey c = k]"
    by auto
  from zs(3) p(4) have "\<forall>k. [c \<leftarrow> zs. zIndexKey c = k] =
         [c \<leftarrow> placed. zIndexKey c = k] @ [c \<leftarrow> x # xs. zIndexKey c = k]"
    by simp
  with p(1) zs(1,2) show ?case by simp
qed

lemma arraySort_stable:
  assumes "\<forall>x \<in> set xs. zIndexNumber x \<noteq> None"
  shows "\<exists>zs. arraySort compareZIndex xs = Inr zs \<and> sorted (map zIndexKey zs) \<and>
           mset zs = mset xs \<and>
           (\<forall>k. [c \<leftarrow> zs. zIndexKey c = k] = [c \<leftarrow> xs. zIndexKey c = k])"
proof -
  from assms have present: "\<forall>x \<in> set xs. \<not> missingZIndex x"
    using zIndexNumber_present by auto
  from insertAll_stable [of "[]" xs] assms obtain zs where zs:
    "arraySort compareZIndex xs = Inr zs" "sorted (map zIndexKey zs)"
    "\<forall>k. [c \<leftarrow> zs. zIndexKey c = k] = [c \<leftarrow> xs. zIndexKey c = k]"
    by (auto simp: arraySort_def)
  with arraySort_present [OF present] show ?thesis by auto
qed

lemma arraySort_sort_key:
  assumes "\<forall>x \<in> set xs. zIndexNumber x \<noteq> None"
  shows "arraySort compareZIndex xs = Inr (sort_key zIndexKey xs)"
proof -
  from arraySort_stable [OF assms] obtain zs where zs:
    "arraySort compareZIndex xs = Inr zs" "sorted (map zIndexKey zs)" "mset zs = mset xs"
    "\<forall>k. [c \<leftarrow> zs. zIndexKey c = k] = [c \<leftarrow> xs. zIndexKey c = k]"
    by auto
  have "sort_key zIndexKey xs = zs"
  proof (rule properties_for_sort_key)
    show "mset zs = mset xs" by (rule zs(3))
    show "sorted (map zIndexKey zs)" by (rule zs(2))
    fix k
    from zs(4) have "[c \<leftarrow> zs. zIndexKey c = zIndexKey k] = [c \<leftarrow> xs. zIndexKey c = zIndexKey k]"
      by simp
    then show "[c \<leftarrow> zs. zIndexKey k = zIndexKey c] = [c \<leftarrow> xs. zIndexKey k = zIndexKey c]"
      by (simp add: eq_commute)
  qed
  with zs(1) show ?thesis by simp
qed


text \<open>
  C4, as the claim has it: in a layer 2 of two entries, the first with the z-index tag
  \<^verbatim>\<open>abc\<close>, from which no integer can be read, the sort returns without an error and
  leaves the entries in their order; so it does in a layer whose only entry has no tag.
\<close>

theorem sortChildrenByZIndex_unparseable_counterexample:
  "zIndexNumber (taggedGroup 1 ''abc'') = None \<and>
   sortChildrenByZIndex
     (layerGroup 0 ''childStackingContextsWithNegativeStackLevels''
        [taggedGroup 1 ''abc'', taggedGroup 2 ''1'']) =
   Inr (layerGroup 0 ''childStackingContextsWithNegativeStackLevels''
        [taggedGroup 1 ''abc'', taggedGroup 2 ''1'']) \<and>
   zIndexNumber (SVGElement 1 ''g'' [] []) = None \<and>
   sortChildrenByZIndex
     (layerGroup 0 ''childStackingContextsWithNegativeStackLevels'' [SVGElement 1 ''g'' [] []]) =
   Inr (layerGroup 0 ''childStackingContextsWithNegativeStackLevels'' [SVGElement 1 ''g'' [] []])"
  by code_simp

text \<open>
  C4, amended: for every container with at least two children, one of which has no
  \<^verbatim>\<open>data-z-index\<close> attribute or an empty one, \<^verbatim>\<open>sortChildrenByZIndex\<close> throws.
\<close>

theorem sortChildrenByZIndex_missing_fails:
  assumes "2 \<le> length (children parent)"
      and "\<exists>c \<in> set (children parent). missingZIndex c"
  shows "sortChildrenByZIndex parent =
           Inl (Error ''Expected node to have data-z-index attribute'')"
  using arraySort_missing [OF assms]
  by (simp add: sortChildrenByZIndex_def missingError_def)

text \<open>A layer of three entries, the last without the attribute.\<close>

theorem sortChildrenByZIndex_missing_fails_witness:
  "sortChildrenByZIndex
     (layerGroup 0 ''childStackingContextsWithPositiveStackLevels''
        [taggedGroup 1 ''2'', taggedGroup 2 ''1'', SVGElement 3 ''g'' [] []]) =
   Inl (Error ''Expected node to have data-z-index attribute'')"
proof -
  let ?parent = "layerGroup 0 ''childStackingContextsWithPositiveStackLevels''
        [taggedGroup 1 ''2'', taggedGroup 2 ''1'', SVGElement 3 ''g'' [] []]"
  have "2 \<le> length (children ?parent)"
    by (simp add: layerGroup_def)
  moreover have "\<exists>c \<in> set (children ?parent). missingZIndex c"
    by (simp add: layerGroup_def missingZIndex_def)
  ultimately show ?thesis
    by (rule sortChildrenByZIndex_missing_fails)
qed

text \<open>
  C10: when the children of the parent are distinct nodes and each has a non-empty
  \<^verbatim>\<open>data-z-index\<close> attribute, \<^verbatim>\<open>sortChildrenByZIndex\<close> returns without an error, and
  the children of the parent are then a permutation of its children before; the parent is
  unchanged otherwise.
\<close>

theorem sortChildrenByZIndex_permutation:
  assumes "distinct (map ident (children parent))"
      and "\<forall>c \<in> set (children parent). \<not> missingZIndex c"
  shows "\<exists>sortedChildren.
           sortChildrenByZIndex parent =
             Inr (SVGElement (ident parent) (tagName parent) (dataset parent) sortedChildren) \<and>
           mset sortedChildren = mset (children parent)"
proof -
  from arraySort_present [OF assms(2)] obtain zs where
    zs: "arraySort compareZIndex (children parent) = Inr zs" "mset zs = mset (children parent)"
    by auto
  from foldl_appendNode_permutation [OF assms(1) zs(2)] zs show ?thesis
    by (simp add: sortChildrenByZIndex_def)
qed

text \<open>A layer whose entries have tags from which no integer can be read.\<close>

theorem sortChildrenByZIndex_permutation_witness:
  "\<exists>sortedChildren.
     sortChildrenByZIndex
       (layerGroup 0 ''childStackingContextsWithPositiveStackLevels''
          [taggedGroup 1 ''front'', taggedGroup 2 ''5'', taggedGroup 3 ''2'']) =
       Inr (layerGroup 0 ''childStackingContextsWithPositiveStackLevels'' sortedChildren) \<and>
     mset sortedChildren =
       mset [taggedGroup 1 ''front'', taggedGroup 2 ''5'', taggedGroup 3 ''2'']"
proof -
  let ?parent = "layerGroup 0 ''childStackingContextsWithPositiveStackLevels''
          [taggedGroup 1 ''front'', taggedGroup 2 ''5'', taggedGroup 3 ''2'']"
  have "distinct (map ident (children ?parent))"
    by (simp add: layerGroup_def taggedGroup_def)
  moreover have "\<forall>c \<in> set (children ?parent). \<not> missingZIndex c"
    by (simp add: layerGroup_def taggedGroup_def missingZIndex_def)
  ultimately show ?thesis
    using sortChildrenByZIndex_permutation [of ?parent]
    by (simp add: layerGroup_def)
qed

text \<open>
  C5: when the children of the parent are distinct nodes and an integer of magnitude at
  most \<open>2 ^ 53\<close> can be read from the \<^verbatim>\<open>data-z-index\<close> attribute of each,
  \<^verbatim>\<open>sortChildrenByZIndex\<close> returns without an error, the children are then in
  ascending order of their z-index, and for every z-index \<open>k\<close> the children with z-index
  \<open>k\<close> are the same sequence before and after: two children with the same z-index keep
  their order.
\<close>

theorem sortChildrenByZIndex_stable:
  assumes "distinct (map ident (children parent))"
      and "\<forall>c \<in> set (children parent). safeZIndex c"
  shows "\<exists>sortedChildren.
           sortChildrenByZIndex parent =
             Inr (SVGElement (ident parent) (tagName parent) (dataset parent) sortedChildren) \<and>
           sorted (map zIndexKey sortedChildren) \<and>
           (\<forall>k. [c \<leftarrow> sortedChildren. zIndexNumber c = Some k] =
                [c \<leftarrow> children parent. zIndexNumber c = Some k])"
proof -
  from assms(2) have parseable: "\<forall>c \<in> set (children parent). zIndexNumber c \<noteq> None"
    by (auto simp: safeZIndex_def split: option.splits)
  from arraySort_stable [OF parseable] obtain zs where
    zs: "arraySort compareZIndex (children parent) = Inr zs" "sorted (map zIndexKey zs)"
      "mset zs = mset (children parent)"
      "\<forall>k. [c \<leftarrow> zs. zIndexKey c = k] = [c \<leftarrow> children parent. zIndexKey c = k]"
    by auto
  from zs(3) have same: "set zs = set (children parent)"
    by (metis set_mset_mset)
  have key: "(zIndexNumber c = Some k) = (zIndexKey c = k)"
    if "c \<in> set (children parent)" for c k
    using that parseable by (auto simp: zIndexKey_def)
  have "[c \<leftarrow> zs. zIndexNumber c = Some k] = [c \<leftarrow> children parent. zIndexNumber c = Some k]"
    for k
  proof -
    have "[c \<leftarrow> zs. zIndexNumber c = Some k] = [c \<leftarrow> zs. zIndexKey c = k]"
      using same key by (intro filter_cong) auto
    also have "\<dots> = [c \<leftarrow> children parent. zIndexKey c = k]"
      using zs(4) by simp
    also have "\<dots> = [c \<leftarrow> children parent. zIndexNumber c = Some k]"
      using key by (intro filter_cong) auto
    finally show ?thesis .
  qed
  with foldl_appendNode_permutation [OF assms(1) zs(3)] zs(1,2) show ?thesis
    by (simp add: sortChildrenByZIndex_def)
qed

lemma tiedLayer_children:
  "children tiedLayer =
     [taggedGroup 1 ''2'', taggedGroup 2 ''1'', taggedGroup 3 ''2'', taggedGroup 4 ''1'']"
  by (simp add: tiedLayer_def layerGroup_def)

lemma tiedLayer_numbers:
  "map zIndexNumber (children tiedLayer) = [Some 2, Some 1, Some 2, Some 1]"
  by code_simp

text \<open>
  In the layer with the z-indexes 2, 1, 2, 1 the entries of z-index 2 are the first and
  the third, in this order, before the sort and after it.
\<close>

theorem sortChildrenByZIndex_stable_witness:
  "\<exists>sortedChildren.
     sortChildrenByZIndex tiedLayer =
       Inr (layerGroup 7 ''childStackingContextsWithPositiveStackLevels'' sortedChildren) \<and>
     [c \<leftarrow> sortedChildren. zIndexNumber c = Some 2] = [taggedGroup 1 ''2'', taggedGroup 3 ''2'']"
proof -
  have "distinct (map ident (children tiedLayer))"
    by (simp add: tiedLayer_children taggedGroup_def)
  moreover have "\<forall>c \<in> set (children tiedLayer). safeZIndex c"
    using tiedLayer_numbers by (simp add: tiedLayer_children safeZIndex_def)
  ultimately obtain sortedChildren where
    s: "sortChildrenByZIndex tiedLayer =
          Inr (SVGElement (ident tiedLayer) (tagName tiedLayer) (dataset tiedLayer) sortedChildren)"
       "\<forall>k. [c \<leftarrow> sortedChildren. zIndexNumber c = Some k] =
            [c \<leftarrow> children tiedLayer. zIndexNumber c = Some k]"
    using sortChildrenByZIndex_stable [of tiedLayer] by blast
  from s(2) have "[c \<leftarrow> sortedChildren. zIndexNumber c = Some 2] =
      [c \<leftarrow> children tiedLayer. zIndexNumber c = Some 2]"
    by blast
  also have "\<dots> = [taggedGroup 1 ''2'', taggedGroup 3 ''2'']"
    using tiedLayer_numbers by (simp add: tiedLayer_children)
  finally show ?thesis
    using s(1) by (simp add: tiedLayer_def layerGroup_def)
qed

section \<open>The finalize step and the creation of the layers\<close>

text \<open>
  C6: the finalize step on the layers whose layer 2 holds the entries with the z-indexes
  -3, -1 and -2 returns the layers with layer 2 in the order -3, -2, -1.
\<close>

theorem sortStackingLayerChildren_scenario:
  "sortStackingLayerChildren scenarioLayers =
     Inr (scenarioLayers
           \<lparr> childStackingContextsWithNegativeStackLevels :=
               layerGroup 2 ''childStackingContextsWithNegativeStackLevels''
                 [taggedGroup 8 ''-3'', taggedGroup 10 ''-2'', taggedGroup 9 ''-1''] \<rparr>) \<and>
   map zIndexNumber [taggedGroup 8 ''-3'', taggedGroup 10 ''-2'', taggedGroup 9 ''-1''] =
     [Some (- 3), Some (- 2), Some (- 1)]"
  by code_simp

text \<open>
  C8: for a container whose children are older than the elements that the document
  creates next, \<^verbatim>\<open>createStackingLayers\<close> marks the container as a stacking context and
  appends seven new groups behind its children: empty, each tagged with its layer name, in
  the order of the layers 1 to 7. These seven groups are the layers that it returns.
\<close>

theorem createStackingLayers_appends_seven:
  assumes "\<forall>c \<in> set (children container). ident c < fresh"
  shows "createStackingLayers fresh container =
     (\<lparr> rootBackgroundAndBorders = layerGroup fresh ''rootBackgroundAndBorders'' [],
        childStackingContextsWithNegativeStackLevels =
          layerGroup (fresh + 1) ''childStackingContextsWithNegativeStackLevels'' [],
        inFlowNonInlineNonPositionedDescendants =
          layerGroup (fresh + 2) ''inFlowNonInlineNonPositionedDescendants'' [],
        nonPositionedFloats = layerGroup (fresh + 3) ''nonPositionedFloats'' [],
        inFlowInlineLevelNonPositionedDescendants =
          layerGroup (fresh + 4) ''inFlowInlineLevelNonPositionedDescendants'' [],
        childStackingContextsWithStackLevelZeroAndPositionedDescendantsWithStackLevelZero =
          layerGroup (fresh + 5)
            ''childStackingContextsWithStackLevelZeroAndPositionedDescendantsWithStackLevelZero'' [],
        childStackingContextsWithPositiveStackLevels =
          layerGroup (fresh + 6) ''childStackingContextsWithPositiveStackLevels'' [] \<rparr>,
      SVGElement (ident container) (tagName container)
        (AList.update ''stackingContext'' ''true'' (dataset container))
        (children container @
         [layerGroup fresh ''rootBackgroundAndBorders'' [],
          layerGroup (fresh + 1) ''childStackingContextsWithNegativeStackLevels'' [],
          layerGroup (fresh + 2) ''inFlowNonInlineNonPositionedDescendants'' [],
          layerGroup (fresh + 3) ''nonPositionedFloats'' [],
          layerGroup (fresh + 4) ''inFlowInlineLevelNonPositionedDescendants'' [],
          layerGroup (fresh + 5)
            ''childStackingContextsWithStackLevelZeroAndPositionedDescendantsWithStackLevelZero'' [],
          layerGroup (fresh + 6) ''childStackingContextsWithPositiveStackLevels'' []]),
      fresh + 7)"
proof -
  from assms have
    "[c \<leftarrow> children container.
        ident c \<noteq> fresh \<and> ident c \<noteq> Suc fresh \<and> ident c \<noteq> Suc (Suc fresh) \<and>
        ident c \<noteq> Suc (Suc (Suc fresh)) \<and> ident c \<noteq> Suc (Suc (Suc (Suc fresh))) \<and>
        ident c \<noteq> Suc (Suc (Suc (Suc (Suc fresh)))) \<and>
        ident c \<noteq> Suc (Suc (Suc (Suc (Suc (Suc fresh)))))] = children container"
    unfolding filter_id_conv by fastforce
  then show ?thesis
    by (simp add: createStackingLayers_def createStackingLayer_def createElementNS_def
        setDataset_def appendNode_def layerGroup_def Let_def)
qed

text \<open>The \<^verbatim>\<open>svg\<close> element with one child: it has eight children afterwards.\<close>

theorem createStackingLayers_appends_seven_witness:
  "children (fst (snd (createStackingLayers 2 svgRoot))) =
     children svgRoot @
       [layerGroup 2 ''rootBackgroundAndBorders'' [],
        layerGroup 3 ''childStackingContextsWithNegativeStackLevels'' [],
        layerGroup 4 ''inFlowNonInlineNonPositionedDescendants'' [],
        layerGroup 5 ''nonPositionedFloats'' [],
        layerGroup 6 ''inFlowInlineLevelNonPositionedDescendants'' [],
        layerGroup 7
          ''childStackingContextsWithStackLevelZeroAndPositionedDescendantsWithStackLevelZero'' [],
        layerGroup 8 ''childStackingContextsWithPositiveStackLevels'' []] \<and>
   length (children (fst (snd (createStackingLayers 2 svgRoot)))) = 8"
proof -
  have "\<forall>c \<in> set (children svgRoot). ident c < 2"
    by (simp add: svgRoot_def)
  from createStackingLayers_appends_seven [OF this] show ?thesis
    by (simp add: svgRoot_def)
qed

end
